theory Spec2Isabelle
  imports Complex_Main
begin

section \<open>Python values\<close>

text \<open>
  The pipeline threads a loosely typed mapping (\<^verbatim>\<open>dict[str, Any]\<close>) through its stages
  and the codec serialises such mappings. A Python value is one of: \<^verbatim>\<open>None\<close>, a bool,
  an int (unbounded), a float, a str, a list or a dict. A finite float is modelled as an
  exact real, so the rounding of IEEE doubles is outside the model; the two infinities
  (the flag is set for the negative one) and NaN are values of their own. Strings are
  lists of 8-bit characters, so only ASCII text is covered. A dict keeps its insertion
  order and is an association list with distinct keys.
\<close>

datatype pyfloat = Finite real | Infinite bool | NaN

datatype pyval =
    PNone
  | PBool bool
  | PInt int
  | PFloat pyfloat
  | PStr string
  | PList "pyval list"
  | PDict "(string \<times> pyval) list"

section \<open>Risk thresholds (app/core/tools.py, app/core/fusion.py)\<close>

datatype RiskLevel = LOW | MEDIUM | HIGH | CRITICAL

text \<open>\<^verbatim>\<open>RiskLevel\<close> is a \<^verbatim>\<open>str\<close> enum: each member is its lower-case name.\<close>

fun RiskLevel_value :: "RiskLevel \<Rightarrow> string" where
  "RiskLevel_value LOW = ''low''"
| "RiskLevel_value MEDIUM = ''medium''"
| "RiskLevel_value HIGH = ''high''"
| "RiskLevel_value CRITICAL = ''critical''"

text \<open>\<^verbatim>\<open>_risk_from_prob\<close> of fusion.py.\<close>

definition risk_from_prob :: "real \<Rightarrow> RiskLevel" where
  "risk_from_prob prob =
     (if prob \<ge> 0.85 then CRITICAL
      else if prob \<ge> 0.60 then HIGH
      else if prob \<ge> 0.35 then MEDIUM
      else LOW)"

text \<open>
  \<^verbatim>\<open>get_risk_threshold_label\<close> of tools.py; the result is the value stored under the
  key \<^verbatim>\<open>risk_label\<close> of the returned dict.
\<close>

definition get_risk_threshold_label :: "real \<Rightarrow> string" where
  "get_risk_threshold_label prob =
     (if prob \<ge> 0.85 then ''critical''
      else if prob \<ge> 0.60 then ''high''
      else if prob \<ge> 0.35 then ''medium''
      else ''low'')"

text \<open>The order of the four bands, low < medium < high < critical, as a rank.\<close>

fun level_rank :: "RiskLevel \<Rightarrow> nat" where
  "level_rank LOW = 0"
| "level_rank MEDIUM = 1"
| "level_rank HIGH = 2"
| "level_rank CRITICAL = 3"

definition label_rank :: "string \<Rightarrow> nat" where
  "label_rank s =
     (if s = ''critical'' then 3
      else if s = ''high'' then 2
      else if s = ''medium'' then 1
      else 0)"

lemma label_is_level_value:
  "get_risk_threshold_label p = RiskLevel_value (risk_from_prob p)"
  by (simp add: get_risk_threshold_label_def risk_from_prob_def)

lemma label_rank_label:
  "label_rank (get_risk_threshold_label p) = level_rank (risk_from_prob p)"
  by (simp add: get_risk_threshold_label_def risk_from_prob_def label_rank_def)

lemma level_rank_mono:
  assumes "p \<le> q"
  shows "level_rank (risk_from_prob p) \<le> level_rank (risk_from_prob q)"
proof -
  consider (c) "q \<ge> 0.85" | (h) "q < 0.85" "q \<ge> 0.60"
    | (m) "q < 0.60" "q \<ge> 0.35" | (l) "q < 0.35"
    by linarith
  then show ?thesis
  proof cases
    case c
    then show ?thesis by (cases "risk_from_prob p") (simp_all add: risk_from_prob_def)
  next
    case h
    with assms have "p < 0.85" by linarith
    with h show ?thesis by (simp add: risk_from_prob_def)
  next
    case m
    with assms have "p < 0.60" by linarith
    with m show ?thesis by (simp add: risk_from_prob_def)
  next
    case l
    with assms have "p < 0.35" by linarith
    with l show ?thesis by (simp add: risk_from_prob_def)
  qed
qed

text \<open>
  C2. The risk label is a function of the fused probability alone, given by the fixed
  thresholds (at least 0.85 critical, at least 0.60 high, at least 0.35 medium,
  otherwise low), in both \<^verbatim>\<open>get_risk_threshold_label\<close> and \<^verbatim>\<open>_risk_from_prob\<close>; it is
  monotonically non-decreasing in the probability; and the boundary inputs 0.35,
  0.60 and 0.85 fall in the higher band.
\<close>

theorem risk_label_thresholds_monotone:
  assumes "p \<le> q"
  shows "get_risk_threshold_label p =
           (if p \<ge> 0.85 then ''critical'' else if p \<ge> 0.60 then ''high''
            else if p \<ge> 0.35 then ''medium'' else ''low'')
   \<and> RiskLevel_value (risk_from_prob p) = get_risk_threshold_label p
   \<and> label_rank (get_risk_threshold_label p) \<le> label_rank (get_risk_threshold_label q)
   \<and> level_rank (risk_from_prob p) \<le> level_rank (risk_from_prob q)
   \<and> get_risk_threshold_label 0.35 = ''medium''
   \<and> get_risk_threshold_label 0.60 = ''high''
   \<and> get_risk_threshold_label 0.85 = ''critical''"
proof -
  have bands: "get_risk_threshold_label p =
           (if p \<ge> 0.85 then ''critical'' else if p \<ge> 0.60 then ''high''
            else if p \<ge> 0.35 then ''medium'' else ''low'')"
    by (simp add: get_risk_threshold_label_def)
  have same: "RiskLevel_value (risk_from_prob p) = get_risk_threshold_label p"
    by (simp add: label_is_level_value)
  have mono: "level_rank (risk_from_prob p) \<le> level_rank (risk_from_prob q)"
    using assms by (rule level_rank_mono)
  then have mono': "label_rank (get_risk_threshold_label p) \<le> label_rank (get_risk_threshold_label q)"
    by (simp add: label_rank_label)
  have bounds: "get_risk_threshold_label 0.35 = ''medium''"
    "get_risk_threshold_label 0.60 = ''high''"
    "get_risk_threshold_label 0.85 = ''critical''"
    by (simp_all add: get_risk_threshold_label_def)
  from bands same mono mono' bounds show ?thesis by blast
qed

theorem risk_label_thresholds_monotone_witness:
  "(0.35::real) \<le> 0.60
   \<and> label_rank (get_risk_threshold_label 0.35) \<le> label_rank (get_risk_threshold_label 0.60)
   \<and> level_rank (risk_from_prob 0.35) \<le> level_rank (risk_from_prob 0.60)"
proof -
  have h: "(0.35::real) \<le> 0.60" by simp
  from risk_label_thresholds_monotone [OF h] h show ?thesis by blast
qed

section \<open>Text helpers: what the Python built-ins used by the code compute\<close>

text \<open>\<^verbatim>\<open>str(n)\<close> for a non-negative int: its decimal digits.\<close>

definition digit_char :: "nat \<Rightarrow> char" where
  "digit_char d = ''0123456789'' ! d"

fun str_nat :: "nat \<Rightarrow> string" where
  "str_nat n = (if n < 10 then [digit_char n] else str_nat (n div 10) @ [digit_char (n mod 10)])"

declare str_nat.simps [simp del]

definition str_int :: "int \<Rightarrow> string" where
  "str_int i = (if i < 0 then CHR ''-'' # str_nat (nat (- i)) else str_nat (nat i))"

text \<open>Rounding to the nearest integer, ties to the even neighbour.\<close>

definition round_half_even :: "real \<Rightarrow> int" where
  "round_half_even x =
     (let f = \<lfloor>x\<rfloor>; d = x - of_int f
      in if d < 1 / 2 then f
         else if d > 1 / 2 then f + 1
         else if even f then f else f + 1)"

text \<open>
  \<^verbatim>\<open>f"{x:.0f}"\<close> and \<^verbatim>\<open>f"{x:.2f}"\<close>: fixed-point notation with \<open>d\<close> digits after the point,
  the exact value rounded half-even, a minus sign for a negative value.
\<close>

definition fmt_fixed :: "nat \<Rightarrow> real \<Rightarrow> string" where
  "fmt_fixed d x =
     (let ds = str_nat (nat (round_half_even (\<bar>x\<bar> * 10 ^ d)));
          padded = replicate (d + 1 - length ds) CHR ''0'' @ ds;
          k = length padded - d
      in (if x < 0 then [CHR ''-''] else [])
         @ take k padded
         @ (if d = 0 then [] else CHR ''.'' # drop k padded))"

text \<open>\<^verbatim>\<open>str.strip()\<close>: white space removed at both ends (the ASCII white space of \<^verbatim>\<open>str.isspace\<close>).\<close>

definition py_isspace :: "char \<Rightarrow> bool" where
  "py_isspace c = (c \<in> {CHR '' '', CHR 0x09, CHR 0x0A, CHR 0x0B, CHR 0x0C, CHR 0x0D,
                          CHR 0x1C, CHR 0x1D, CHR 0x1E, CHR 0x1F})"

definition py_strip :: "string \<Rightarrow> string" where
  "py_strip s = rev (dropWhile py_isspace (rev (dropWhile py_isspace s)))"

section \<open>Late fusion (app/core/fusion.py)\<close>

text \<open>
  The fields of the pydantic models of app/schemas.py that \<^verbatim>\<open>fuse_and_explain\<close> reads.
  \<^verbatim>\<open>AgentState\<close> declares neither \<^verbatim>\<open>service_age_risk_score\<close> nor
  \<^verbatim>\<open>transactional_risk_score\<close>; the code reads both with \<^verbatim>\<open>getattr(state, name, 0.0)\<close>.
  They are optional here, \<open>None\<close> standing for an object without the attribute, which
  is what every \<^verbatim>\<open>AgentState\<close> built from the declared fields is.
\<close>

record VisionResult =
  is_casting_present :: bool
  has_corrosion :: bool
  has_leaks :: bool
  has_cracks :: bool
  visual_risk_score :: real

record HistoryResult =
  overdue_tasks :: "string list"
  history_risk_impact :: real

record AgentState =
  triggered_sensors :: "string list"
  pump_id :: string
  current_total_hours :: int
  vision_result :: "VisionResult option"
  history_result :: "HistoryResult option"
  sensor_risk_score :: real
  history_risk_score :: "real option"
  service_age_risk_score :: "real option"
  transactional_risk_score :: "real option"

text \<open>The dict literal \<^verbatim>\<open>fusion_weights\<close>, one field per key.\<close>

record ModalityWeights =
  w_sensor :: real
  w_vision :: real
  w_history :: real
  w_service_age :: real
  w_transactional :: real

definition fusion_weights :: ModalityWeights where
  "fusion_weights =
     \<lparr>w_sensor = 0.8, w_vision = 0.2, w_history = 0.1, w_service_age = 0.2,
      w_transactional = 0.2\<rparr>"

definition total_weight :: "ModalityWeights \<Rightarrow> real" where
  "total_weight w = w_sensor w + w_vision w + w_history w + w_service_age w + w_transactional w"

text \<open>\<^verbatim>\<open>if total_weight != 1.0: fusion_weights = {k: v / total_weight ...}\<close>\<close>

definition normalize_weights :: "ModalityWeights \<Rightarrow> ModalityWeights" where
  "normalize_weights w =
     (let t = total_weight w
      in if t \<noteq> 1
         then \<lparr>w_sensor = w_sensor w / t, w_vision = w_vision w / t,
               w_history = w_history w / t, w_service_age = w_service_age w / t,
               w_transactional = w_transactional w / t\<rparr>
         else w)"

text \<open>The five scores, as the local variables of \<^verbatim>\<open>fuse_and_explain\<close> are set.\<close>

definition sensor_score :: "AgentState \<Rightarrow> real" where
  "sensor_score st = sensor_risk_score st"

definition vision_score :: "AgentState \<Rightarrow> real" where
  "vision_score st = (case vision_result st of None \<Rightarrow> 0 | Some v \<Rightarrow> visual_risk_score v)"

text \<open>\<^verbatim>\<open>history_score = (history_score_val or 0.0)\<close>\<close>

definition history_score :: "AgentState \<Rightarrow> real" where
  "history_score st = (case history_risk_score st of None \<Rightarrow> 0 | Some h \<Rightarrow> h)"

definition service_age_score :: "AgentState \<Rightarrow> real" where
  "service_age_score st = (case service_age_risk_score st of None \<Rightarrow> 0 | Some x \<Rightarrow> x)"

definition transactional_score :: "AgentState \<Rightarrow> real" where
  "transactional_score st = (case transactional_risk_score st of None \<Rightarrow> 0 | Some x \<Rightarrow> x)"

definition fused_prob :: "AgentState \<Rightarrow> real" where
  "fused_prob st =
     (let w = normalize_weights fusion_weights
      in w_sensor w * sensor_score st
         + w_vision w * vision_score st
         + w_history w * history_score st
         + w_service_age w * service_age_score st
         + w_transactional w * transactional_score st)"

definition vision_has_leaks :: "AgentState \<Rightarrow> bool" where
  "vision_has_leaks st = (case vision_result st of None \<Rightarrow> False | Some v \<Rightarrow> has_leaks v)"

definition vision_has_cracks :: "AgentState \<Rightarrow> bool" where
  "vision_has_cracks st = (case vision_result st of None \<Rightarrow> False | Some v \<Rightarrow> has_cracks v)"

definition history_overdue :: "AgentState \<Rightarrow> string list" where
  "history_overdue st = (case history_result st of None \<Rightarrow> [] | Some h \<Rightarrow> overdue_tasks h)"

text \<open>The f-string that opens the explanation: every modality, its weight and score.\<close>

definition explanation_head :: "AgentState \<Rightarrow> string" where
  "explanation_head st =
     (let w = normalize_weights fusion_weights
      in ''The risk score is a weighted fusion of all available modalities: ''
         @ ''Sensor ('' @ fmt_fixed 0 (w_sensor w * 100) @ ''%, ''
             @ fmt_fixed 2 (sensor_score st) @ ''), ''
         @ ''Vision ('' @ fmt_fixed 0 (w_vision w * 100) @ ''%, ''
             @ fmt_fixed 2 (vision_score st) @ ''), ''
         @ ''History ('' @ fmt_fixed 0 (w_history w * 100) @ ''%, ''
             @ fmt_fixed 2 (history_score st) @ ''), ''
         @ ''Service Age ('' @ fmt_fixed 0 (w_service_age w * 100) @ ''%, ''
             @ fmt_fixed 2 (service_age_score st) @ ''), ''
         @ ''Transactional ('' @ fmt_fixed 0 (w_transactional w * 100) @ ''%, ''
             @ fmt_fixed 2 (transactional_score st) @ ''). '')"

text \<open>The clauses appended to it, each under its own condition, in the source's order.\<close>

definition explanation_clauses :: "AgentState \<Rightarrow> string list" where
  "explanation_clauses st =
     (if vision_has_leaks st
      then ['' Visual seal leak detected (contributes '' @ fmt_fixed 2 (vision_score st) @ '').'']
      else [])
     @ (if history_overdue st \<noteq> []
        then ['' History risk impact '' @ fmt_fixed 2 (history_score st) @ ''.''] else [])
     @ (if service_age_score st > 0.5
        then ['' Service age anomaly detected (score ''
              @ fmt_fixed 2 (service_age_score st) @ '').''] else [])
     @ (if transactional_score st > 0.5
        then ['' Outstanding transactional/maintenance risk (score ''
              @ fmt_fixed 2 (transactional_score st) @ '').''] else [])
     @ (if sensor_score st = 0 \<and> vision_score st = 0 \<and> history_score st = 0
           \<and> service_age_score st = 0 \<and> transactional_score st = 0
        then ['' No significant risk factors detected.''] else [])"

definition explanation_text :: "AgentState \<Rightarrow> string" where
  "explanation_text st = py_strip (explanation_head st @ concat (explanation_clauses st))"

definition top_signals_of :: "AgentState \<Rightarrow> string list" where
  "top_signals_of st =
     map (\<lambda>sensor. ''Historical '' @ sensor @ '' Spike'') (triggered_sensors st)
     @ (if vision_has_leaks st then [''Vision: Leak detected in casting image''] else [])
     @ (if vision_has_cracks st then [''Vision: Crack detected in casting image''] else [])
     @ (if history_overdue st \<noteq> []
        then map (\<lambda>task. ''History overdue: '' @ task) (take 3 (history_overdue st)) else [])
     @ (if service_age_score st > 0.5 then [''Service age anomaly detected''] else [])
     @ (if transactional_score st > 0.5
        then [''Outstanding transactional/maintenance risk''] else [])"

definition action_items_of :: "AgentState \<Rightarrow> string list" where
  "action_items_of st =
     (let items =
        (if vision_has_leaks st then [''Inspect for leaks immediately.''] else [])
        @ (if vision_has_cracks st then [''Inspect for cracks immediately.''] else [])
        @ (if history_overdue st \<noteq> [] then [''Perform overdue maintenance tasks.''] else [])
        @ (if service_age_score st > 0.5 then [''Check overdue service schedule.''] else [])
        @ (if transactional_score st > 0.5
           then [''Review outstanding maintenance requests.''] else [])
      in if items = [] then [''Continue routine monitoring.''] else items)"

text \<open>
  The dict returned by \<^verbatim>\<open>fuse_and_explain\<close>. Its last two entries are read from the
  \<^verbatim>\<open>AgentState\<close> object with \<^verbatim>\<open>getattr(state, name, None)\<close>; the class declares neither
  \<^verbatim>\<open>manual_context\<close> nor \<^verbatim>\<open>anomaly_query\<close>, so both are \<^verbatim>\<open>None\<close>.
\<close>

record FusionReport =
  fused_score :: real
  status_label :: string
  explanation :: string
  top_signals :: "string list"
  action_items :: "string list"
  modality_contributions :: "(string \<times> real \<times> real) list"
  report_manual_context :: pyval
  report_anomaly_query :: pyval

definition fuse_and_explain :: "AgentState \<Rightarrow> FusionReport" where
  "fuse_and_explain st =
     (let w = normalize_weights fusion_weights
      in \<lparr>fused_score = fused_prob st,
          status_label = get_risk_threshold_label (fused_prob st),
          explanation = explanation_text st,
          top_signals = top_signals_of st,
          action_items = action_items_of st,
          modality_contributions =
            [(''sensor'', sensor_score st, w_sensor w),
             (''vision'', vision_score st, w_vision w),
             (''history'', history_score st, w_history w),
             (''service_age'', service_age_score st, w_service_age w),
             (''transactional'', transactional_score st, w_transactional w)],
          report_manual_context = PNone,
          report_anomaly_query = PNone\<rparr>)"

subsection \<open>The fused score\<close>

lemma normalized_fusion_weights:
  "normalize_weights fusion_weights =
     \<lparr>w_sensor = 8 / 15, w_vision = 2 / 15, w_history = 1 / 15, w_service_age = 2 / 15,
      w_transactional = 2 / 15\<rparr>"
  by (simp add: normalize_weights_def fusion_weights_def total_weight_def)

lemma fused_prob_eq:
  "fused_prob st =
     8 / 15 * sensor_score st + 2 / 15 * vision_score st + 1 / 15 * history_score st
     + 2 / 15 * service_age_score st + 2 / 15 * transactional_score st"
  by (simp add: fused_prob_def normalized_fusion_weights)

lemma fused_prob_bounds:
  assumes "0 \<le> a" "a \<le> 1" "0 \<le> b" "b \<le> 1" "0 \<le> c" "c \<le> 1"
    "0 \<le> d" "d \<le> 1" "0 \<le> e" "e \<le> (1::real)"
  shows "0 \<le> 8 / 15 * a + 2 / 15 * b + 1 / 15 * c + 2 / 15 * d + 2 / 15 * e"
    and "8 / 15 * a + 2 / 15 * b + 1 / 15 * c + 2 / 15 * d + 2 / 15 * e \<le> 1"
  using assms by linarith+

text \<open>
  C1. When the five modality scores lie in [0,1], the fused score is the sum over the
  modalities of normalized weight times score, the normalized weights being the
  nominal ones (sensor 0.8, vision 0.2, history 0.1, service age 0.2, transactional 0.2)
  divided by their total, and it lies in [0,1]. A modality without a value (no vision
  result, no history risk score, no service-age or transactional attribute) has score 0.
\<close>

theorem fused_score_normalized_weighted_sum:
  assumes "0 \<le> sensor_score st" "sensor_score st \<le> 1"
    and "0 \<le> vision_score st" "vision_score st \<le> 1"
    and "0 \<le> history_score st" "history_score st \<le> 1"
    and "0 \<le> service_age_score st" "service_age_score st \<le> 1"
    and "0 \<le> transactional_score st" "transactional_score st \<le> 1"
  shows "fused_score (fuse_and_explain st) =
           0.8 / (0.8 + 0.2 + 0.1 + 0.2 + 0.2) * sensor_score st
           + 0.2 / (0.8 + 0.2 + 0.1 + 0.2 + 0.2) * vision_score st
           + 0.1 / (0.8 + 0.2 + 0.1 + 0.2 + 0.2) * history_score st
           + 0.2 / (0.8 + 0.2 + 0.1 + 0.2 + 0.2) * service_age_score st
           + 0.2 / (0.8 + 0.2 + 0.1 + 0.2 + 0.2) * transactional_score st
         \<and> 0 \<le> fused_score (fuse_and_explain st)
         \<and> fused_score (fuse_and_explain st) \<le> 1
         \<and> total_weight (normalize_weights fusion_weights) = 1
         \<and> vision_score (st\<lparr>vision_result := None\<rparr>) = 0
         \<and> history_score (st\<lparr>history_risk_score := None\<rparr>) = 0
         \<and> service_age_score (st\<lparr>service_age_risk_score := None\<rparr>) = 0
         \<and> transactional_score (st\<lparr>transactional_risk_score := None\<rparr>) = 0"
proof -
  have fs: "fused_score (fuse_and_explain st) = fused_prob st"
    by (simp add: fuse_and_explain_def Let_def)
  have sum: "fused_prob st =
           0.8 / (0.8 + 0.2 + 0.1 + 0.2 + 0.2) * sensor_score st
           + 0.2 / (0.8 + 0.2 + 0.1 + 0.2 + 0.2) * vision_score st
           + 0.1 / (0.8 + 0.2 + 0.1 + 0.2 + 0.2) * history_score st
           + 0.2 / (0.8 + 0.2 + 0.1 + 0.2 + 0.2) * service_age_score st
           + 0.2 / (0.8 + 0.2 + 0.1 + 0.2 + 0.2) * transactional_score st"
    by (simp add: fused_prob_eq)
  have lo: "0 \<le> fused_prob st"
    unfolding fused_prob_eq using assms by (rule fused_prob_bounds(1))
  have hi: "fused_prob st \<le> 1"
    unfolding fused_prob_eq using assms by (rule fused_prob_bounds(2))
  have tw: "total_weight (normalize_weights fusion_weights) = 1"
    by (simp add: normalized_fusion_weights total_weight_def)
  have absent: "vision_score (st\<lparr>vision_result := None\<rparr>) = 0"
    "history_score (st\<lparr>history_risk_score := None\<rparr>) = 0"
    "service_age_score (st\<lparr>service_age_risk_score := None\<rparr>) = 0"
    "transactional_score (st\<lparr>transactional_risk_score := None\<rparr>) = 0"
    by (simp_all add: vision_score_def history_score_def service_age_score_def
        transactional_score_def)
  from fs sum lo hi tw absent show ?thesis by simp
qed

text \<open>Scenario A: the sensor probability is 0.9 and no other modality has a value.\<close>

definition scenario_A :: AgentState where
  "scenario_A =
     \<lparr>triggered_sensors = [], pump_id = ''P-001'', current_total_hours = 100,
      vision_result = None, history_result = None, sensor_risk_score = 0.9,
      history_risk_score = None, service_age_risk_score = None,
      transactional_risk_score = None\<rparr>"

lemma scenario_A_scores:
  "sensor_score scenario_A = 0.9" "vision_score scenario_A = 0"
  "history_score scenario_A = 0" "service_age_score scenario_A = 0"
  "transactional_score scenario_A = 0"
  by (simp_all add: scenario_A_def sensor_score_def vision_score_def history_score_def
      service_age_score_def transactional_score_def)

theorem fused_score_normalized_weighted_sum_witness:
  "0 \<le> sensor_score scenario_A \<and> sensor_score scenario_A \<le> 1
   \<and> fused_score (fuse_and_explain scenario_A) = 12 / 25
   \<and> 0 \<le> fused_score (fuse_and_explain scenario_A)
   \<and> fused_score (fuse_and_explain scenario_A) \<le> 1"
  using fused_score_normalized_weighted_sum [of scenario_A]
  by (simp add: scenario_A_scores)

subsection \<open>Scenario A: label and explanation\<close>

lemma fmt_percentages:
  "fmt_fixed 0 (160 / 3) = ''53''"
  "fmt_fixed 0 (40 / 3) = ''13''"
  "fmt_fixed 0 (20 / 3) = ''7''"
  by code_simp+

lemma fmt_scenario_scores:
  "fmt_fixed 2 (9 / 10) = ''0.90''"
  "fmt_fixed 2 0 = ''0.00''"
  by code_simp+

lemma strip_scenario_text:
  "py_strip ''The risk score is a weighted fusion of all available modalities: Sensor (53%, 0.90), Vision (13%, 0.00), History (7%, 0.00), Service Age (13%, 0.00), Transactional (13%, 0.00). ''
   = ''The risk score is a weighted fusion of all available modalities: Sensor (53%, 0.90), Vision (13%, 0.00), History (7%, 0.00), Service Age (13%, 0.00), Transactional (13%, 0.00).''"
  by code_simp

lemma sensor_only_scores:
  assumes "sensor_risk_score st = 0.9" "vision_result st = None" "history_result st = None"
    "history_risk_score st = None" "service_age_risk_score st = None"
    "transactional_risk_score st = None"
  shows "sensor_score st = 0.9" "vision_score st = 0" "history_score st = 0"
    "service_age_score st = 0" "transactional_score st = 0"
    "vision_has_leaks st = False" "vision_has_cracks st = False" "history_overdue st = []"
  using assms
  by (simp_all add: sensor_score_def vision_score_def history_score_def
      service_age_score_def transactional_score_def vision_has_leaks_def
      vision_has_cracks_def history_overdue_def)

text \<open>
  A state in which only the sensor has a value: the four absent modalities keep their
  full share of the divisor, so the fused score is 8/15 of the sensor score. With a
  sensor score of at most 1 it stays below the threshold of "high".
\<close>

lemma lone_sensor_capped:
  assumes "vision_result st = None" "history_risk_score st = None"
    "service_age_risk_score st = None" "transactional_risk_score st = None"
    and "sensor_score st \<le> 1"
  shows "fused_score (fuse_and_explain st) = 8 / 15 * sensor_score st"
    and "fused_score (fuse_and_explain st) < 0.6"
    and "status_label (fuse_and_explain st) \<noteq> ''critical''"
    and "status_label (fuse_and_explain st) \<noteq> ''high''"
proof -
  have zero: "vision_score st = 0" "history_score st = 0" "service_age_score st = 0"
    "transactional_score st = 0"
    using assms(1-4)
    by (simp_all add: vision_score_def history_score_def service_age_score_def
        transactional_score_def)
  have fp: "fused_prob st = 8 / 15 * sensor_score st"
    by (simp add: fused_prob_eq zero)
  with assms(5) have low: "fused_prob st < 0.6" by simp
  show "fused_score (fuse_and_explain st) = 8 / 15 * sensor_score st"
    using fp by (simp add: fuse_and_explain_def Let_def)
  show "fused_score (fuse_and_explain st) < 0.6"
    using low by (simp add: fuse_and_explain_def Let_def)
  show "status_label (fuse_and_explain st) \<noteq> ''critical''"
    "status_label (fuse_and_explain st) \<noteq> ''high''"
    using low by (simp_all add: fuse_and_explain_def Let_def get_risk_threshold_label_def)
qed

text \<open>
  The report of Scenario A apart from its label: the explanation is the fixed template,
  which names all five modalities with their normalized weight percentages and raw
  scores (0.00 for the four absent ones) and has no further clause; the only action item
  is the routine-monitoring default.
\<close>

lemma sensor_only_report:
  assumes "sensor_risk_score st = 0.9" "vision_result st = None" "history_result st = None"
    "history_risk_score st = None" "service_age_risk_score st = None"
    "transactional_risk_score st = None"
  shows "fused_score (fuse_and_explain st) = 0.48
         \<and> status_label (fuse_and_explain st) = ''medium''
         \<and> explanation (fuse_and_explain st) =
             ''The risk score is a weighted fusion of all available modalities: Sensor (53%, 0.90), Vision (13%, 0.00), History (7%, 0.00), Service Age (13%, 0.00), Transactional (13%, 0.00).''
         \<and> action_items (fuse_and_explain st) = [''Continue routine monitoring.'']"
proof -
  note sc = sensor_only_scores [OF assms]
  have fp: "fused_prob st = 0.48"
    by (simp add: fused_prob_eq sc)
  have lab: "get_risk_threshold_label (fused_prob st) = ''medium''"
    by (simp add: fp get_risk_threshold_label_def)
  have head: "explanation_head st =
      ''The risk score is a weighted fusion of all available modalities: Sensor (53%, 0.90), Vision (13%, 0.00), History (7%, 0.00), Service Age (13%, 0.00), Transactional (13%, 0.00). ''"
    by (simp add: explanation_head_def normalized_fusion_weights sc fmt_percentages
        fmt_scenario_scores)
  have clauses: "explanation_clauses st = []"
    by (simp add: explanation_clauses_def sc)
  have expl: "explanation_text st =
      ''The risk score is a weighted fusion of all available modalities: Sensor (53%, 0.90), Vision (13%, 0.00), History (7%, 0.00), Service Age (13%, 0.00), Transactional (13%, 0.00).''"
    unfolding explanation_text_def head clauses by (simp add: strip_scenario_text)
  have acts: "action_items_of st = [''Continue routine monitoring.'']"
    by (simp add: action_items_of_def sc)
  from fp lab expl acts show ?thesis
    by (simp add: fuse_and_explain_def Let_def)
qed

text \<open>
  C8. With sensor probability 0.9 and no other modality the claim expects the label
  "critical", and the comment above the computation says that missing modalities must
  not drag the score down. The code divides the sensor weight 0.8 by the total 1.5 of
  all five weights whether the other modalities are present or not, so the fused score
  of Scenario A is 0.9 * 8/15 = 0.48 and the label is "medium", not "critical".
\<close>

theorem scenario_A_not_critical:
  "sensor_risk_score scenario_A = 0.9
   \<and> vision_result scenario_A = None \<and> history_risk_score scenario_A = None
   \<and> service_age_risk_score scenario_A = None
   \<and> transactional_risk_score scenario_A = None
   \<and> fused_score (fuse_and_explain scenario_A) = 12 / 25
   \<and> status_label (fuse_and_explain scenario_A) = ''medium''
   \<and> status_label (fuse_and_explain scenario_A) \<noteq> ''critical''
   \<and> get_risk_threshold_label 0.9 = ''critical''"
proof -
  have input: "sensor_risk_score scenario_A = 0.9" "vision_result scenario_A = None"
    "history_risk_score scenario_A = None" "service_age_risk_score scenario_A = None"
    "transactional_risk_score scenario_A = None"
    by (simp_all add: scenario_A_def)
  have report: "fused_score (fuse_and_explain scenario_A) = 12 / 25"
    "status_label (fuse_and_explain scenario_A) = ''medium''"
    by (simp_all add: fuse_and_explain_def Let_def fused_prob_eq scenario_A_scores
        get_risk_threshold_label_def)
  have intended: "get_risk_threshold_label 0.9 = ''critical''"
    by (simp add: get_risk_threshold_label_def)
  from input report intended show ?thesis by simp
qed

section \<open>Maintenance compliance (app/core/service_age_node.py)\<close>

text \<open>
  The three tables the node queries, as app/db/models.py declares them (all columns
  are non-null; a timestamp is a point on a linear time axis).
\<close>

record ServiceScheduleRow =
  sched_pump_id :: string
  sched_task_name :: string
  sched_interval_hours :: int

record WorkDoneLogRow =
  log_pump_id :: string
  log_task_name :: string
  log_hours_at_service :: int
  log_timestamp :: int

record MaintenanceRequestRow =
  req_pump_id :: string
  req_description :: string
  req_priority :: string
  req_status :: string

record Database =
  service_schedules :: "ServiceScheduleRow list"
  work_done_logs :: "WorkDoneLogRow list"
  maintenance_requests :: "MaintenanceRequestRow list"

text \<open>
  \<^verbatim>\<open>SELECT task_name, interval_hours FROM service_schedules WHERE pump_id = :pump_id\<close>.
  The pump id comes from \<^verbatim>\<open>state.get("pump_id")\<close> and may be \<^verbatim>\<open>None\<close>; a comparison with
  NULL selects no row.
\<close>

definition sched_rows :: "Database \<Rightarrow> string option \<Rightarrow> ServiceScheduleRow list" where
  "sched_rows db pump = filter (\<lambda>r. Some (sched_pump_id r) = pump) (service_schedules db)"

text \<open>
  \<^verbatim>\<open>SELECT hours_at_service FROM work_done_logs WHERE pump_id = :pump_id AND task_name =
  :task_name ORDER BY timestamp DESC, hours_at_service DESC LIMIT 1\<close>: the rows of the
  task, and among them the first in that order.
\<close>

definition task_logs :: "Database \<Rightarrow> string option \<Rightarrow> string \<Rightarrow> WorkDoneLogRow list" where
  "task_logs db pump task =
     filter (\<lambda>r. Some (log_pump_id r) = pump \<and> log_task_name r = task) (work_done_logs db)"

definition log_before :: "WorkDoneLogRow \<Rightarrow> WorkDoneLogRow \<Rightarrow> bool" where
  "log_before a b =
     (log_timestamp a > log_timestamp b
      \<or> (log_timestamp a = log_timestamp b \<and> log_hours_at_service a > log_hours_at_service b))"

fun first_in_order :: "WorkDoneLogRow \<Rightarrow> WorkDoneLogRow list \<Rightarrow> WorkDoneLogRow" where
  "first_in_order best [] = best"
| "first_in_order best (r # rs) = first_in_order (if log_before r best then r else best) rs"

definition log_row :: "Database \<Rightarrow> string option \<Rightarrow> string \<Rightarrow> int option" where
  "log_row db pump task =
     (case task_logs db pump task of
        [] \<Rightarrow> None
      | r # rs \<Rightarrow> Some (log_hours_at_service (first_in_order r rs)))"

text \<open>\<^verbatim>\<open>if log_row: last_done = log_row[0]  else: last_done = 0  # Never done\<close>\<close>

definition last_done :: "Database \<Rightarrow> string option \<Rightarrow> string \<Rightarrow> int" where
  "last_done db pump task = (case log_row db pump task of Some h \<Rightarrow> h | None \<Rightarrow> 0)"

text \<open>\<^verbatim>\<open>overdue_hours = (current_total_hours - last_done) - interval_hours\<close>\<close>

definition overdue_hours :: "Database \<Rightarrow> string option \<Rightarrow> int \<Rightarrow> ServiceScheduleRow \<Rightarrow> int" where
  "overdue_hours db pump cur s =
     (cur - last_done db pump (sched_task_name s)) - sched_interval_hours s"

text \<open>The dict appended to \<^verbatim>\<open>overdue_tasks\<close> for an overdue task.\<close>

record OverdueTask =
  ot_task_name :: string
  ot_overdue_hours :: int
  ot_interval_hours :: int
  ot_last_done :: int
  ot_current_total_hours :: int

definition overdue_entry :: "Database \<Rightarrow> string option \<Rightarrow> int \<Rightarrow> ServiceScheduleRow \<Rightarrow> OverdueTask" where
  "overdue_entry db pump cur s =
     \<lparr>ot_task_name = sched_task_name s,
      ot_overdue_hours = overdue_hours db pump cur s,
      ot_interval_hours = sched_interval_hours s,
      ot_last_done = last_done db pump (sched_task_name s),
      ot_current_total_hours = cur\<rparr>"

text \<open>The loop \<^verbatim>\<open>for sched in sched_rows\<close>, with the list it appends to.\<close>

fun overdue_loop ::
  "Database \<Rightarrow> string option \<Rightarrow> int \<Rightarrow> ServiceScheduleRow list \<Rightarrow> OverdueTask list
   \<Rightarrow> OverdueTask list" where
  "overdue_loop db pump cur [] acc = acc"
| "overdue_loop db pump cur (s # rest) acc =
     overdue_loop db pump cur rest
       (if overdue_hours db pump cur s > 0 then acc @ [overdue_entry db pump cur s] else acc)"

text \<open>
  \<^verbatim>\<open>SELECT description, priority, status FROM maintenance_requests WHERE pump_id =
  :pump_id AND status = 'OPEN' ORDER BY priority DESC\<close>. The order the store gives to
  the priority strings depends on its collation and is not modelled: the rows are kept
  in table order.
\<close>

definition open_request_rows :: "Database \<Rightarrow> string option \<Rightarrow> (string \<times> string \<times> string) list" where
  "open_request_rows db pump =
     map (\<lambda>r. (req_description r, req_priority r, req_status r))
       (filter (\<lambda>r. Some (req_pump_id r) = pump \<and> req_status r = ''OPEN'')
          (maintenance_requests db))"

text \<open>
  What the node returns: the typed error when the current hours cannot be determined,
  the partial update with the two lists, or the incoming state unchanged when the store
  cannot be reached (the \<^verbatim>\<open>except Exception\<close> branch). The text appended to
  \<^verbatim>\<open>anomaly_query\<close> in the update is not modelled.
\<close>

datatype ServiceAgeResult =
    InvestigatorError string
  | ServiceAgeUpdate "OverdueTask list" "(string \<times> string \<times> string) list"
  | StateUnchanged

text \<open>
  \<open>cur\<close> is \<^verbatim>\<open>state.get("current_total_hours")\<close>; \<open>hist_max\<close> is the maximum of the
  \<^verbatim>\<open>Operational_Hours\<close> column of the historical file, \<open>None\<close> when the path is absent,
  the file cannot be read or has no such column; \<open>db\<close> is \<open>None\<close> when opening the
  session or a query raises.
\<close>

definition service_age_node ::
  "string option \<Rightarrow> int option \<Rightarrow> int option \<Rightarrow> Database option \<Rightarrow> ServiceAgeResult" where
  "service_age_node pump cur hist_max db =
     (case (case cur of Some c \<Rightarrow> Some c | None \<Rightarrow> hist_max) of
        None \<Rightarrow>
          InvestigatorError
            ''Missing current_total_hours and cannot infer from historical_logs.''
      | Some c \<Rightarrow>
          (case db of
             None \<Rightarrow> StateUnchanged
           | Some d \<Rightarrow>
               ServiceAgeUpdate (overdue_loop d pump c (sched_rows d pump) [])
                 (open_request_rows d pump)))"

lemma overdue_loop_filter:
  "overdue_loop db pump cur ss acc =
     acc @ map (overdue_entry db pump cur) (filter (\<lambda>s. overdue_hours db pump cur s > 0) ss)"
  by (induction ss arbitrary: acc) simp_all

lemma first_in_order_mem: "first_in_order best rs \<in> set (best # rs)"
  by (induction rs arbitrary: best) auto

lemma log_before_trans_neg:
  "\<not> log_before a b \<Longrightarrow> \<not> log_before b c \<Longrightarrow> \<not> log_before a c"
  by (auto simp: log_before_def)

lemma first_in_order_not_before_best: "\<not> log_before best (first_in_order best rs)"
proof (induction rs arbitrary: best)
  case Nil
  show ?case by (simp add: log_before_def)
next
  case (Cons r rs)
  show ?case
  proof (cases "log_before r best")
    case True
    then have "\<not> log_before best r" by (auto simp: log_before_def)
    with Cons [of r] True show ?thesis
      using log_before_trans_neg by auto
  next
    case False
    with Cons [of best] show ?thesis by simp
  qed
qed

lemma first_in_order_first:
  "x \<in> set (best # rs) \<Longrightarrow> \<not> log_before x (first_in_order best rs)"
proof (induction rs arbitrary: best)
  case Nil
  then show ?case by (simp add: log_before_def)
next
  case (Cons r rs)
  let ?b = "if log_before r best then r else best"
  from Cons.prems consider "x = best" | "x = r" | "x \<in> set rs" by auto
  then show ?case
  proof cases
    case 1
    have "\<not> log_before best ?b" by (auto simp: log_before_def)
    moreover have "\<not> log_before ?b (first_in_order ?b rs)"
      by (rule first_in_order_not_before_best)
    ultimately have "\<not> log_before best (first_in_order ?b rs)"
      by (rule log_before_trans_neg)
    with 1 show ?thesis by simp
  next
    case 2
    have "\<not> log_before r ?b" by (auto simp: log_before_def)
    moreover have "\<not> log_before ?b (first_in_order ?b rs)"
      by (rule first_in_order_not_before_best)
    ultimately have "\<not> log_before r (first_in_order ?b rs)"
      by (rule log_before_trans_neg)
    with 2 show ?thesis by simp
  next
    case 3
    then have "x \<in> set (?b # rs)" by simp
    from Cons.IH [OF this] show ?thesis by simp
  qed
qed

lemma last_done_never_logged:
  "task_logs db pump task = [] \<Longrightarrow> last_done db pump task = 0"
  by (simp add: last_done_def log_row_def)

lemma last_done_most_recent:
  assumes "task_logs db pump task \<noteq> []"
  shows "\<exists>r. r \<in> set (task_logs db pump task)
           \<and> last_done db pump task = log_hours_at_service r
           \<and> list_all (\<lambda>x. \<not> log_before x r) (task_logs db pump task)"
proof -
  from assms obtain b rs where eq: "task_logs db pump task = b # rs"
    by (cases "task_logs db pump task") auto
  let ?r = "first_in_order b rs"
  have "?r \<in> set (task_logs db pump task)"
    unfolding eq by (rule first_in_order_mem)
  moreover have "last_done db pump task = log_hours_at_service ?r"
    by (simp add: last_done_def log_row_def eq)
  moreover have "list_all (\<lambda>x. \<not> log_before x ?r) (task_logs db pump task)"
    unfolding eq list_all_iff using first_in_order_first [of _ b rs] by blast
  ultimately show ?thesis by blast
qed

text \<open>
  C5. When the current hours are known and the store answers, then for every scheduled
  task of the asset: \<open>last_done\<close> is 0 if the task has no work-log row and otherwise the
  hours-at-service of the row that comes first by timestamp, then hours, descending;
  \<open>overdue_hours\<close> is (current hours - last_done) - interval; the task's entry (with
  these values) is in the overdue list if and only if \<open>overdue_hours\<close> is strictly
  positive, so a task exactly at the boundary is not listed.
\<close>

theorem overdue_iff_strictly_positive:
  assumes "service_age_node pump cur hist_max db = ServiceAgeUpdate tasks reqs"
    and "(case cur of Some c \<Rightarrow> Some c | None \<Rightarrow> hist_max) = Some c"
    and "db = Some d"
    and "s \<in> set (sched_rows d pump)"
  shows "(task_logs d pump (sched_task_name s) = []
            \<longrightarrow> last_done d pump (sched_task_name s) = 0)
       \<and> (task_logs d pump (sched_task_name s) \<noteq> []
            \<longrightarrow> (\<exists>r. r \<in> set (task_logs d pump (sched_task_name s))
                  \<and> last_done d pump (sched_task_name s) = log_hours_at_service r
                  \<and> list_all (\<lambda>x. \<not> log_before x r) (task_logs d pump (sched_task_name s))))
       \<and> overdue_hours d pump c s
            = (c - last_done d pump (sched_task_name s)) - sched_interval_hours s
       \<and> (overdue_entry d pump c s \<in> set tasks \<longleftrightarrow> overdue_hours d pump c s > 0)
       \<and> (list_ex (\<lambda>t. ot_task_name t = sched_task_name s
                        \<and> ot_interval_hours t = sched_interval_hours s) tasks
            \<longleftrightarrow> overdue_hours d pump c s > 0)
       \<and> (overdue_hours d pump c s = 0 \<longrightarrow> overdue_entry d pump c s \<notin> set tasks)
       \<and> list_all (\<lambda>t. ot_overdue_hours t > 0
                        \<and> ot_overdue_hours t
                            = (ot_current_total_hours t - ot_last_done t) - ot_interval_hours t)
            tasks"
proof -
  let ?over = "\<lambda>s. overdue_hours d pump c s > 0"
  from assms(1-3) have tasks:
    "tasks = map (overdue_entry d pump c) (filter ?over (sched_rows d pump))"
    by (simp add: service_age_node_def overdue_loop_filter)
  have inj: "overdue_entry d pump c a = overdue_entry d pump c b
      \<Longrightarrow> overdue_hours d pump c a = overdue_hours d pump c b" for a b
    by (simp add: overdue_entry_def)
  have mem: "overdue_entry d pump c s \<in> set tasks \<longleftrightarrow> overdue_hours d pump c s > 0"
  proof
    assume "overdue_entry d pump c s \<in> set tasks"
    then obtain s' where "s' \<in> set (sched_rows d pump)" "?over s'"
      "overdue_entry d pump c s = overdue_entry d pump c s'"
      unfolding tasks by auto
    with inj [of s s'] show "overdue_hours d pump c s > 0" by simp
  next
    assume "overdue_hours d pump c s > 0"
    with assms(4) show "overdue_entry d pump c s \<in> set tasks"
      unfolding tasks by auto
  qed
  have ex: "list_ex (\<lambda>t. ot_task_name t = sched_task_name s
                        \<and> ot_interval_hours t = sched_interval_hours s) tasks
            \<longleftrightarrow> overdue_hours d pump c s > 0"
  proof
    assume "list_ex (\<lambda>t. ot_task_name t = sched_task_name s
                        \<and> ot_interval_hours t = sched_interval_hours s) tasks"
    then obtain s' where s': "s' \<in> set (sched_rows d pump)" "?over s'"
      "sched_task_name s' = sched_task_name s" "sched_interval_hours s' = sched_interval_hours s"
      unfolding tasks list_ex_iff by (auto simp: overdue_entry_def)
    then have "overdue_hours d pump c s' = overdue_hours d pump c s"
      by (simp add: overdue_hours_def)
    with s'(2) show "overdue_hours d pump c s > 0" by simp
  next
    assume "overdue_hours d pump c s > 0"
    with mem have "overdue_entry d pump c s \<in> set tasks" by simp
    then show "list_ex (\<lambda>t. ot_task_name t = sched_task_name s
                        \<and> ot_interval_hours t = sched_interval_hours s) tasks"
      unfolding list_ex_iff by (rule bexI [rotated]) (simp add: overdue_entry_def)
  qed
  have all: "list_all (\<lambda>t. ot_overdue_hours t > 0
                        \<and> ot_overdue_hours t
                            = (ot_current_total_hours t - ot_last_done t) - ot_interval_hours t)
            tasks"
    unfolding tasks list_all_iff by (auto simp: overdue_entry_def overdue_hours_def)
  have never: "task_logs d pump (sched_task_name s) = []
            \<longrightarrow> last_done d pump (sched_task_name s) = 0"
    by (simp add: last_done_never_logged)
  have recent: "task_logs d pump (sched_task_name s) \<noteq> []
            \<longrightarrow> (\<exists>r. r \<in> set (task_logs d pump (sched_task_name s))
                  \<and> last_done d pump (sched_task_name s) = log_hours_at_service r
                  \<and> list_all (\<lambda>x. \<not> log_before x r) (task_logs d pump (sched_task_name s)))"
    using last_done_most_recent by blast
  have formula: "overdue_hours d pump c s
            = (c - last_done d pump (sched_task_name s)) - sched_interval_hours s"
    by (simp add: overdue_hours_def)
  from mem have boundary: "overdue_hours d pump c s = 0 \<longrightarrow> overdue_entry d pump c s \<notin> set tasks"
    by simp
  from never recent formula mem ex boundary all show ?thesis by blast
qed

text \<open>
  A store with three scheduled tasks for pump P-001 at 1000 running hours: an oil change
  every 500 hours, logged at 400 hours and later at 600 hours (the later row counts, 100
  hours are left); a seal check every 1000 hours, never logged (exactly at the
  boundary); a bearing check every 300 hours, last logged at 600 hours (100 overdue).
\<close>

definition example_db :: Database where
  "example_db =
     \<lparr>service_schedules =
        [\<lparr>sched_pump_id = ''P-001'', sched_task_name = ''oil'', sched_interval_hours = 500\<rparr>,
         \<lparr>sched_pump_id = ''P-001'', sched_task_name = ''seal'', sched_interval_hours = 1000\<rparr>,
         \<lparr>sched_pump_id = ''P-001'', sched_task_name = ''bearing'', sched_interval_hours = 300\<rparr>,
         \<lparr>sched_pump_id = ''P-002'', sched_task_name = ''oil'', sched_interval_hours = 10\<rparr>],
      work_done_logs =
        [\<lparr>log_pump_id = ''P-001'', log_task_name = ''oil'', log_hours_at_service = 400,
          log_timestamp = 1\<rparr>,
         \<lparr>log_pump_id = ''P-001'', log_task_name = ''oil'', log_hours_at_service = 600,
          log_timestamp = 2\<rparr>,
         \<lparr>log_pump_id = ''P-001'', log_task_name = ''bearing'', log_hours_at_service = 600,
          log_timestamp = 2\<rparr>],
      maintenance_requests = []\<rparr>"

definition seal_task :: ServiceScheduleRow where
  "seal_task = \<lparr>sched_pump_id = ''P-001'', sched_task_name = ''seal'', sched_interval_hours = 1000\<rparr>"

definition bearing_task :: ServiceScheduleRow where
  "bearing_task =
     \<lparr>sched_pump_id = ''P-001'', sched_task_name = ''bearing'', sched_interval_hours = 300\<rparr>"

lemma example_node_result:
  "service_age_node (Some ''P-001'') (Some 1000) None (Some example_db) =
     ServiceAgeUpdate
       [\<lparr>ot_task_name = ''bearing'', ot_overdue_hours = 100, ot_interval_hours = 300,
         ot_last_done = 600, ot_current_total_hours = 1000\<rparr>] []"
  by (simp add: service_age_node_def example_db_def sched_rows_def overdue_hours_def
      last_done_def log_row_def task_logs_def log_before_def overdue_entry_def
      open_request_rows_def)

theorem overdue_iff_strictly_positive_witness:
  "seal_task \<in> set (sched_rows example_db (Some ''P-001''))
   \<and> task_logs example_db (Some ''P-001'') (sched_task_name seal_task) = []
   \<and> last_done example_db (Some ''P-001'') (sched_task_name seal_task) = 0
   \<and> overdue_hours example_db (Some ''P-001'') 1000 seal_task = 0
   \<and> overdue_entry example_db (Some ''P-001'') 1000 seal_task
       \<notin> set [\<lparr>ot_task_name = ''bearing'', ot_overdue_hours = 100, ot_interval_hours = 300,
                ot_last_done = 600, ot_current_total_hours = 1000\<rparr>]
   \<and> bearing_task \<in> set (sched_rows example_db (Some ''P-001''))
   \<and> task_logs example_db (Some ''P-001'') (sched_task_name bearing_task) \<noteq> []
   \<and> overdue_hours example_db (Some ''P-001'') 1000 bearing_task = 100
   \<and> overdue_entry example_db (Some ''P-001'') 1000 bearing_task
       \<in> set [\<lparr>ot_task_name = ''bearing'', ot_overdue_hours = 100, ot_interval_hours = 300,
                ot_last_done = 600, ot_current_total_hours = 1000\<rparr>]"
proof -
  have cur: "(case Some 1000 of Some c \<Rightarrow> Some c | None \<Rightarrow> None) = Some (1000::int)"
    by simp
  have mem: "seal_task \<in> set (sched_rows example_db (Some ''P-001''))"
    by (simp add: sched_rows_def example_db_def seal_task_def)
  have nolog: "task_logs example_db (Some ''P-001'') (sched_task_name seal_task) = []"
    by (simp add: task_logs_def example_db_def seal_task_def)
  note seal = overdue_iff_strictly_positive [OF example_node_result cur refl mem]
  from seal nolog have ld: "last_done example_db (Some ''P-001'') (sched_task_name seal_task) = 0"
    by blast
  from seal ld have oh: "overdue_hours example_db (Some ''P-001'') 1000 seal_task = 0"
    by (simp add: seal_task_def)
  have mem': "bearing_task \<in> set (sched_rows example_db (Some ''P-001''))"
    by (simp add: sched_rows_def example_db_def bearing_task_def)
  have logged: "task_logs example_db (Some ''P-001'') (sched_task_name bearing_task) \<noteq> []"
    by (simp add: task_logs_def example_db_def bearing_task_def)
  have oh': "overdue_hours example_db (Some ''P-001'') 1000 bearing_task = 100"
    by (simp add: overdue_hours_def last_done_def log_row_def task_logs_def example_db_def
        bearing_task_def)
  note bearing = overdue_iff_strictly_positive [OF example_node_result cur refl mem']
  from bearing oh' have listed:
    "overdue_entry example_db (Some ''P-001'') 1000 bearing_task
       \<in> set [\<lparr>ot_task_name = ''bearing'', ot_overdue_hours = 100, ot_interval_hours = 300,
                ot_last_done = 600, ot_current_total_hours = 1000\<rparr>]"
    by simp
  from seal oh mem nolog ld mem' logged oh' listed show ?thesis by blast
qed

section \<open>Baseline statistics (app/core/feature_node.py)\<close>

text \<open>
  One sensor column of the historical frame, after the frame is sorted by operating
  hours; a null cell is \<open>None\<close>. \<^verbatim>\<open>vals = df[sensor].drop_nulls()\<close>.
\<close>

fun drop_nulls :: "real option list \<Rightarrow> real list" where
  "drop_nulls [] = []"
| "drop_nulls (None # xs) = drop_nulls xs"
| "drop_nulls (Some x # xs) = x # drop_nulls xs"

text \<open>
  The series statistics of the data-frame library: the arithmetic mean and the sample
  standard deviation (one delta degree of freedom, the library's default).
\<close>

definition series_mean :: "real list \<Rightarrow> real" where
  "series_mean xs = sum_list xs / real (length xs)"

definition series_std :: "real list \<Rightarrow> real" where
  "series_std xs =
     sqrt (sum_list (map (\<lambda>x. (x - series_mean xs)\<^sup>2) xs) / (real (length xs) - 1))"

text \<open>
  \<^verbatim>\<open>mean_val = float(vals[-100:].mean()) if len(vals) >= 100 else float(vals.mean())\<close>
\<close>

definition rolling_mean :: "real list \<Rightarrow> real" where
  "rolling_mean vals =
     (if length vals \<ge> 100 then series_mean (drop (length vals - 100) vals)
      else series_mean vals)"

definition global_mean :: "real list \<Rightarrow> real" where
  "global_mean vals = series_mean vals"

text \<open>\<^verbatim>\<open>global_std = float(vals.std()) if float(vals.std()) > 0 else 1.0\<close>\<close>

definition global_std :: "real list \<Rightarrow> real" where
  "global_std vals = (if series_std vals > 0 then series_std vals else 1)"

text \<open>
  What the loop body stores for one sensor. The 95th percentile is computed by the
  library's \<^verbatim>\<open>quantile(0.95)\<close>, whose interpolation rule is not part of this repository:
  it is the parameter \<open>q95\<close>. \<open>cur\<close> is the live reading after \<^verbatim>\<open>float(raw_val)\<close>, \<open>None\<close>
  when it is absent or not a number.
\<close>

record SensorBaseline =
  sb_threshold :: "real option"
  sb_rolling_mean :: "real option"
  sb_drift_score :: "real option"
  sb_triggered :: bool

definition sensor_baseline ::
  "(real list \<Rightarrow> real) \<Rightarrow> real option \<Rightarrow> real option list \<Rightarrow> SensorBaseline" where
  "sensor_baseline q95 cur col =
     (let vals = drop_nulls col
      in if length vals < 10
         then \<lparr>sb_threshold = None, sb_rolling_mean = None, sb_drift_score = None,
               sb_triggered = False\<rparr>
         else
           (let p95_val = q95 vals;
                mean_val = rolling_mean vals
            in \<lparr>sb_threshold = Some p95_val,
                sb_rolling_mean = Some mean_val,
                sb_drift_score = Some ((mean_val - global_mean vals) / global_std vals),
                sb_triggered = (case cur of None \<Rightarrow> False | Some c \<Rightarrow> c > p95_val)\<rparr>))"

text \<open>
  C6. A sensor with fewer than 10 non-null samples has no threshold, no rolling mean
  and no drift score; with at least 10 all three are set. In particular 9 samples give
  none of them and 10 samples give all of them (nulls in the column do not count).
\<close>

theorem baseline_needs_ten_samples:
  "(sb_threshold (sensor_baseline q95 cur col) = None \<longleftrightarrow> length (drop_nulls col) < 10)
   \<and> (sb_rolling_mean (sensor_baseline q95 cur col) = None \<longleftrightarrow> length (drop_nulls col) < 10)
   \<and> (sb_drift_score (sensor_baseline q95 cur col) = None \<longleftrightarrow> length (drop_nulls col) < 10)
   \<and> sensor_baseline q95 cur (None # map Some [x1, x2, x3, x4, x5, x6, x7, x8, x9])
       = \<lparr>sb_threshold = None, sb_rolling_mean = None, sb_drift_score = None,
          sb_triggered = False\<rparr>
   \<and> sb_threshold (sensor_baseline q95 cur (map Some [x1, x2, x3, x4, x5, x6, x7, x8, x9, x10]))
       = Some (q95 [x1, x2, x3, x4, x5, x6, x7, x8, x9, x10])
   \<and> sb_rolling_mean (sensor_baseline q95 cur (map Some [x1, x2, x3, x4, x5, x6, x7, x8, x9, x10]))
       = Some ((x1 + x2 + x3 + x4 + x5 + x6 + x7 + x8 + x9 + x10) / 10)
   \<and> sb_drift_score (sensor_baseline q95 cur (map Some [x1, x2, x3, x4, x5, x6, x7, x8, x9, x10]))
       \<noteq> None"
proof -
  have general:
    "sb_threshold (sensor_baseline q95 cur col) = None \<longleftrightarrow> length (drop_nulls col) < 10"
    "sb_rolling_mean (sensor_baseline q95 cur col) = None \<longleftrightarrow> length (drop_nulls col) < 10"
    "sb_drift_score (sensor_baseline q95 cur col) = None \<longleftrightarrow> length (drop_nulls col) < 10"
    by (simp_all add: sensor_baseline_def Let_def)
  have nine: "sensor_baseline q95 cur (None # map Some [x1, x2, x3, x4, x5, x6, x7, x8, x9])
       = \<lparr>sb_threshold = None, sb_rolling_mean = None, sb_drift_score = None,
          sb_triggered = False\<rparr>"
    by (simp add: sensor_baseline_def)
  have ten:
    "sb_threshold (sensor_baseline q95 cur (map Some [x1, x2, x3, x4, x5, x6, x7, x8, x9, x10]))
       = Some (q95 [x1, x2, x3, x4, x5, x6, x7, x8, x9, x10])"
    "sb_rolling_mean (sensor_baseline q95 cur (map Some [x1, x2, x3, x4, x5, x6, x7, x8, x9, x10]))
       = Some ((x1 + x2 + x3 + x4 + x5 + x6 + x7 + x8 + x9 + x10) / 10)"
    "sb_drift_score (sensor_baseline q95 cur (map Some [x1, x2, x3, x4, x5, x6, x7, x8, x9, x10]))
       \<noteq> None"
    by (simp_all add: sensor_baseline_def Let_def rolling_mean_def series_mean_def)
  from general nine ten show ?thesis by blast
qed

lemma drop_nulls_length_le: "length (drop_nulls col) \<le> length col"
  by (induction col rule: drop_nulls.induct) simp_all

lemma constant_series_sum:
  "list_all (\<lambda>x. x = c) xs \<Longrightarrow> sum_list xs = real (length xs) * c"
  by (induction xs) (simp_all add: algebra_simps)

lemma constant_series_mean:
  assumes "list_all (\<lambda>x. x = c) xs" "xs \<noteq> []"
  shows "series_mean xs = c"
  using assms by (simp add: series_mean_def constant_series_sum)

lemma constant_series_deviation:
  "list_all (\<lambda>x. x = c) xs \<Longrightarrow> sum_list (map (\<lambda>x. (x - c)\<^sup>2) xs) = (0::real)"
  by (induction xs) simp_all

lemma constant_series_std:
  assumes "list_all (\<lambda>x. x = c) xs" "xs \<noteq> []"
  shows "series_std xs = 0"
  using assms by (simp add: series_std_def constant_series_mean constant_series_deviation)

lemma constant_series_drop:
  "list_all (\<lambda>x. x = c) xs \<Longrightarrow> list_all (\<lambda>x. x = c) (drop n xs)"
  by (auto simp: list_all_iff dest: in_set_dropD)

lemma constant_series_rolling_mean:
  assumes "list_all (\<lambda>x. x = c) xs" "xs \<noteq> []"
  shows "rolling_mean xs = c"
proof (cases "length xs \<ge> 100")
  case True
  then have "drop (length xs - 100) xs \<noteq> []" by simp
  with assms(1) True show ?thesis
    by (simp add: rolling_mean_def constant_series_mean constant_series_drop)
next
  case False
  with assms show ?thesis by (simp add: rolling_mean_def constant_series_mean)
qed

lemma global_std_positive: "0 < global_std xs"
  by (simp add: global_std_def)

text \<open>
  C7. For a sensor with at least 10 non-null samples that are all equal, the standard
  deviation is zero and \<open>global_std\<close> is set to 1.0, so the drift score is
  rolling mean - global mean (which is 0); and whatever the series, \<open>global_std\<close> is
  positive, so the division in the drift score never has a zero divisor.
\<close>

theorem constant_series_drift:
  assumes "length (drop_nulls col) \<ge> 10"
    and "list_all (\<lambda>x. x = c) (drop_nulls col)"
  shows "series_std (drop_nulls col) = 0
       \<and> global_std (drop_nulls col) = 1
       \<and> sb_drift_score (sensor_baseline q95 cur col)
           = Some (rolling_mean (drop_nulls col) - global_mean (drop_nulls col))
       \<and> sb_drift_score (sensor_baseline q95 cur col) = Some 0
       \<and> 0 < global_std xs"
proof -
  let ?vals = "drop_nulls col"
  from assms(1) have ne: "?vals \<noteq> []" by auto
  have std0: "series_std ?vals = 0"
    using assms(2) ne by (rule constant_series_std)
  then have gs: "global_std ?vals = 1" by (simp add: global_std_def)
  have rm: "rolling_mean ?vals = c"
    using assms(2) ne by (rule constant_series_rolling_mean)
  have gm: "global_mean ?vals = c"
    using assms(2) ne by (simp add: global_mean_def constant_series_mean)
  from assms(1) have drift: "sb_drift_score (sensor_baseline q95 cur col)
      = Some ((rolling_mean ?vals - global_mean ?vals) / global_std ?vals)"
    by (simp add: sensor_baseline_def Let_def)
  from std0 gs drift rm gm global_std_positive [of xs] show ?thesis by simp
qed

theorem constant_series_drift_witness:
  "length (drop_nulls (replicate 12 (Some 5))) \<ge> 10
   \<and> list_all (\<lambda>x. x = 5) (drop_nulls (replicate 12 (Some 5)))
   \<and> global_std (drop_nulls (replicate 12 (Some 5))) = 1
   \<and> sb_drift_score (sensor_baseline (\<lambda>vals. 5) None (replicate 12 (Some 5))) = Some 0"
proof -
  have vals: "drop_nulls (replicate 12 (Some 5)) = replicate 12 5"
    by (simp add: numeral_eq_Suc)
  have h1: "length (drop_nulls (replicate 12 (Some 5))) \<ge> 10"
    by (simp add: vals)
  have h2: "list_all (\<lambda>x. x = 5) (drop_nulls (replicate 12 (Some 5)))"
    by (simp add: vals list_all_iff)
  from constant_series_drift [OF h1 h2, of "\<lambda>vals. 5" None] h1 h2 show ?thesis by blast
qed

section \<open>Pipeline stages (app/core/orchestrator.py)\<close>

text \<open>
  The running state is a \<^verbatim>\<open>dict[str, Any]\<close>; the order of its keys plays no role in the
  orchestrator, so it is a finite map from keys to values.
\<close>

type_synonym pipeline_state = "string \<rightharpoonup> pyval"

text \<open>
  The lines every wrapper repeats after \<^verbatim>\<open>merged = dict(state); merged.update(result)\<close>:
  \<^verbatim>\<open>if k not in merged and k in state: merged[k] = state[k]\<close>, for the two protected keys.
\<close>

definition reassert :: "string \<Rightarrow> pipeline_state \<Rightarrow> pipeline_state \<Rightarrow> pipeline_state" where
  "reassert k state merged =
     (if k \<notin> dom merged \<and> k \<in> dom state then merged(k := state k) else merged)"

definition merge_stage :: "pipeline_state \<Rightarrow> pipeline_state \<Rightarrow> pipeline_state" where
  "merge_stage state result =
     reassert ''anomaly_query'' state (reassert ''manual_context'' state (state ++ result))"

text \<open>The wrapper \<^verbatim>\<open>feature_node\<close>: the merge and nothing else.\<close>

definition feature_node_stage :: "pipeline_state \<Rightarrow> pipeline_state \<Rightarrow> pipeline_state" where
  "feature_node_stage state result = merge_stage state result"

text \<open>Python truth value of a value, as \<^verbatim>\<open>if sensor_anomaly:\<close> tests it.\<close>

fun py_truthy :: "pyval \<Rightarrow> bool" where
  "py_truthy PNone = False"
| "py_truthy (PBool b) = b"
| "py_truthy (PInt i) = (i \<noteq> 0)"
| "py_truthy (PFloat x) = (x \<noteq> Finite 0)"
| "py_truthy (PStr s) = (s \<noteq> [])"
| "py_truthy (PList xs) = (xs \<noteq> [])"
| "py_truthy (PDict kvs) = (kvs \<noteq> [])"

datatype stage_error = TypeError

text \<open>
  \<^verbatim>\<open>prev_query = merged.get("anomaly_query", ""); merged["anomaly_query"] = prev_query +
  f" ... {finding}."\<close>. Adding a \<^verbatim>\<open>str\<close> to anything but a \<^verbatim>\<open>str\<close> raises \<^verbatim>\<open>TypeError\<close>. The
  text of \<^verbatim>\<open>str(finding)\<close> is the parameter \<open>render\<close>.
\<close>

definition append_finding ::
  "(pyval \<Rightarrow> string) \<Rightarrow> string \<Rightarrow> pyval option \<Rightarrow> pipeline_state \<Rightarrow> stage_error + pipeline_state" where
  "append_finding render label finding merged =
     (case finding of
        None \<Rightarrow> Inr merged
      | Some v \<Rightarrow>
          if \<not> py_truthy v then Inr merged
          else
            (case (case merged ''anomaly_query'' of None \<Rightarrow> PStr [] | Some q \<Rightarrow> q) of
               PStr prev \<Rightarrow>
                 Inr (merged(''anomaly_query'' \<mapsto> PStr (prev @ label @ render v @ ''.'')))
             | _ \<Rightarrow> Inl TypeError))"

text \<open>The wrapper \<^verbatim>\<open>sensor_node\<close>; an exception leaves the wrapper.\<close>

definition sensor_node_stage ::
  "(pyval \<Rightarrow> string) \<Rightarrow> pipeline_state \<Rightarrow> pipeline_state \<Rightarrow> stage_error + pipeline_state" where
  "sensor_node_stage render state result =
     append_finding render '' Sensor anomaly detected: '' (result ''sensor_anomaly'')
       (merge_stage state result)"

text \<open>
  The wrapper \<^verbatim>\<open>service_age_node\<close>: the same, inside \<^verbatim>\<open>try\<close>; on an exception the incoming
  state is returned.
\<close>

definition service_age_node_stage ::
  "(pyval \<Rightarrow> string) \<Rightarrow> pipeline_state \<Rightarrow> pipeline_state \<Rightarrow> pipeline_state" where
  "service_age_node_stage render state result =
     (case append_finding render '' Service age anomaly detected: ''
             (result ''service_age_anomaly'') (merge_stage state result) of
        Inl e \<Rightarrow> state
      | Inr merged \<Rightarrow> merged)"

text \<open>
  The dict \<^verbatim>\<open>fuse_and_explain\<close> returns (\<^verbatim>\<open>report.dict()\<close> and the three entries added to
  it), as the update of the running state.
\<close>

definition report_update :: "FusionReport \<Rightarrow> pipeline_state" where
  "report_update r =
     [''fused_score'' \<mapsto> PFloat (Finite (fused_score r)),
      ''status_label'' \<mapsto> PStr (status_label r),
      ''explanation'' \<mapsto> PStr (explanation r),
      ''top_signals'' \<mapsto> PList (map PStr (top_signals r)),
      ''action_items'' \<mapsto> PList (map PStr (action_items r)),
      ''modality_contributions'' \<mapsto>
         PDict (map (\<lambda>(name, score, weight).
                      (name, PDict [(''score'', PFloat (Finite score)), (''weight'', PFloat (Finite weight))]))
                  (modality_contributions r)),
      ''manual_context'' \<mapsto> report_manual_context r,
      ''anomaly_query'' \<mapsto> report_anomaly_query r]"

text \<open>The default report of \<^verbatim>\<open>fusion_node\<close> when the state does not validate.\<close>

definition fallback_update :: "pipeline_state \<Rightarrow> pipeline_state" where
  "fallback_update state =
     [''fused_score'' \<mapsto> PFloat (Finite 0),
      ''status_label'' \<mapsto> PStr ''low'',
      ''explanation'' \<mapsto> PStr ''Unable to process: incomplete state'',
      ''top_signals'' \<mapsto> PList [],
      ''action_items'' \<mapsto> PList [PStr ''Check system configuration'']]
     ++ (state |` {''pump_id'', ''current_total_hours'', ''request_id''})"

text \<open>
  \<^verbatim>\<open>fusion_node\<close>. \<open>validate\<close> is the construction \<^verbatim>\<open>AgentState(**state)\<close> by the validation
  library: \<open>None\<close> when it raises, otherwise the object, which holds the declared fields
  only (keys of the state that the class does not declare are dropped).
\<close>

definition fusion_node ::
  "(pipeline_state \<Rightarrow> AgentState option) \<Rightarrow> pipeline_state \<Rightarrow> pipeline_state" where
  "fusion_node validate state =
     (case validate state of
        None \<Rightarrow> state ++ fallback_update state
      | Some agent \<Rightarrow> merge_stage state (report_update (fuse_and_explain agent)))"

lemma reassert_dom: "k' \<in> dom merged \<Longrightarrow> k' \<in> dom (reassert k state merged)"
  by (auto simp: reassert_def)

lemma reassert_noop: "dom state \<subseteq> dom merged \<Longrightarrow> reassert k state merged = merged"
  by (auto simp: reassert_def)

lemma merge_stage_eq: "merge_stage state result = state ++ result"
  by (simp add: merge_stage_def reassert_noop)

lemma merge_stage_keeps_key: "k \<in> dom state \<Longrightarrow> k \<in> dom (merge_stage state result)"
  by (simp add: merge_stage_eq)

lemma merge_stage_untouched: "k \<notin> dom result \<Longrightarrow> merge_stage state result k = state k"
  by (simp add: merge_stage_eq map_add_dom_app_simps)

lemma merge_stage_overwrites: "result k = Some v \<Longrightarrow> merge_stage state result k = Some v"
  by (simp add: merge_stage_eq)

lemma feature_node_stage_keeps:
  "k \<in> dom state \<Longrightarrow> k \<in> dom (feature_node_stage state result)"
  "k \<notin> dom result \<Longrightarrow> feature_node_stage state result k = state k"
  by (simp_all add: feature_node_stage_def merge_stage_keeps_key merge_stage_untouched)

lemma append_finding_keeps_key:
  "append_finding render label finding merged = Inr m \<Longrightarrow> k \<in> dom merged \<Longrightarrow> k \<in> dom m"
  by (auto simp: append_finding_def split: option.splits if_splits pyval.splits)

lemma sensor_node_stage_keeps:
  "sensor_node_stage render state result = Inr m \<Longrightarrow> k \<in> dom state \<Longrightarrow> k \<in> dom m"
  unfolding sensor_node_stage_def
  by (erule append_finding_keeps_key) (rule merge_stage_keeps_key)

lemma service_age_node_stage_keeps:
  assumes "k \<in> dom state"
  shows "k \<in> dom (service_age_node_stage render state result)"
proof (cases "append_finding render '' Service age anomaly detected: ''
                (result ''service_age_anomaly'') (merge_stage state result)")
  case (Inl e)
  with assms show ?thesis by (simp add: service_age_node_stage_def)
next
  case (Inr m)
  from assms have "k \<in> dom (merge_stage state result)" by (rule merge_stage_keeps_key)
  with Inr have "k \<in> dom m" by (rule append_finding_keeps_key)
  with Inr show ?thesis by (simp add: service_age_node_stage_def)
qed

lemma report_update_protected:
  "report_update (fuse_and_explain agent) ''manual_context'' = Some PNone"
  "report_update (fuse_and_explain agent) ''anomaly_query'' = Some PNone"
  by (simp_all add: report_update_def fuse_and_explain_def Let_def)

lemma fallback_update_protected:
  "fallback_update state ''manual_context'' = None"
  "fallback_update state ''anomaly_query'' = None"
  by (simp_all add: fallback_update_def map_add_def restrict_map_def)

text \<open>
  A state as it reaches the fusion stage: the knowledge-base context and the anomaly
  description have been written by earlier stages.
\<close>

definition state_before_fusion :: pipeline_state where
  "state_before_fusion =
     [''pump_id'' \<mapsto> PStr ''P-001'',
      ''current_total_hours'' \<mapsto> PInt 100,
      ''sensor_risk_score'' \<mapsto> PFloat (Finite 0.9),
      ''manual_context'' \<mapsto> PDict [(''causes'', PStr ''Vibration: Loose magnet'')],
      ''anomaly_query'' \<mapsto> PStr '' sensor_risk_score: 0.9;'']"

text \<open>
  C9. The merge keeps every key of the state, and a value the stage's update does not
  carry is unchanged. The fusion stage, however, does not keep the two protected fields:
  the update it merges always carries \<^verbatim>\<open>manual_context\<close> and \<^verbatim>\<open>anomaly_query\<close> with the value
  \<^verbatim>\<open>None\<close> (they are read from the validated object, which has no such attributes), so
  whenever the state validates both fields are overwritten with \<^verbatim>\<open>None\<close>, and the
  re-assertion, which tests only whether the key is there, does nothing.
\<close>

theorem fusion_node_overwrites_protected_fields:
  "fusion_node validate state ''manual_context''
     = (case validate state of None \<Rightarrow> state ''manual_context'' | Some agent \<Rightarrow> Some PNone)
   \<and> fusion_node validate state ''anomaly_query''
     = (case validate state of None \<Rightarrow> state ''anomaly_query'' | Some agent \<Rightarrow> Some PNone)
   \<and> state_before_fusion ''manual_context''
       = Some (PDict [(''causes'', PStr ''Vibration: Loose magnet'')])
   \<and> state_before_fusion ''anomaly_query'' = Some (PStr '' sensor_risk_score: 0.9;'')
   \<and> fusion_node (\<lambda>s. Some scenario_A) state_before_fusion ''manual_context'' = Some PNone
   \<and> fusion_node (\<lambda>s. Some scenario_A) state_before_fusion ''anomaly_query'' = Some PNone"
proof -
  have general: "fusion_node v s ''manual_context''
     = (case v s of None \<Rightarrow> s ''manual_context'' | Some agent \<Rightarrow> Some PNone)"
    "fusion_node v s ''anomaly_query''
     = (case v s of None \<Rightarrow> s ''anomaly_query'' | Some agent \<Rightarrow> Some PNone)" for v s
    by (simp_all add: fusion_node_def merge_stage_overwrites report_update_protected
        fallback_update_protected map_add_def split: option.splits)
  have before: "state_before_fusion ''manual_context''
       = Some (PDict [(''causes'', PStr ''Vibration: Loose magnet'')])"
    "state_before_fusion ''anomaly_query'' = Some (PStr '' sensor_risk_score: 0.9;'')"
    by (simp_all add: state_before_fusion_def)
  from general [of validate state] general [of "\<lambda>s. Some scenario_A" state_before_fusion] before
  show ?thesis by simp
qed

section \<open>The codec (app/utils/toon.py)\<close>

subsection \<open>Characters and strings, as the Python built-ins treat them\<close>

definition is_upper :: "char \<Rightarrow> bool" where
  "is_upper c = (65 \<le> (of_char c :: nat) \<and> (of_char c :: nat) \<le> 90)"

definition is_lower :: "char \<Rightarrow> bool" where
  "is_lower c = (97 \<le> (of_char c :: nat) \<and> (of_char c :: nat) \<le> 122)"

definition is_digit :: "char \<Rightarrow> bool" where
  "is_digit c = (48 \<le> (of_char c :: nat) \<and> (of_char c :: nat) \<le> 57)"

definition to_lower :: "char \<Rightarrow> char" where
  "to_lower c = (if is_upper c then char_of (of_char c + (32::nat)) else c)"

definition to_upper :: "char \<Rightarrow> char" where
  "to_upper c = (if is_lower c then char_of (of_char c - (32::nat)) else c)"

text \<open>\<^verbatim>\<open>str.lower()\<close> and \<^verbatim>\<open>str.capitalize()\<close>.\<close>

definition py_lower :: "string \<Rightarrow> string" where
  "py_lower s = map to_lower s"

fun py_capitalize :: "string \<Rightarrow> string" where
  "py_capitalize [] = []"
| "py_capitalize (c # cs) = to_upper c # map to_lower cs"

text \<open>\<^verbatim>\<open>s.split(sep)\<close> for a one-character separator: always at least one piece.\<close>

fun py_split :: "char \<Rightarrow> string \<Rightarrow> string list" where
  "py_split sep [] = [[]]"
| "py_split sep (c # cs) =
     (if c = sep then [] # py_split sep cs
      else (let ps = py_split sep cs in (c # hd ps) # tl ps))"

text \<open>\<^verbatim>\<open>sep.join(parts)\<close>.\<close>

fun py_join :: "string \<Rightarrow> string list \<Rightarrow> string" where
  "py_join sep [] = []"
| "py_join sep [p] = p"
| "py_join sep (p # q # ps) = p @ sep @ py_join sep (q # ps)"


subsection \<open>Numbers as text\<close>

text \<open>
  \<^verbatim>\<open>int(text)\<close>: white space around, an optional sign, decimal digits, single underscores
  allowed between digits. \<open>None\<close> stands for \<^verbatim>\<open>ValueError\<close>.
\<close>

definition digit_val :: "char \<Rightarrow> nat" where
  "digit_val c = of_char c - 48"

fun digits_rest :: "string \<Rightarrow> string \<Rightarrow> string option" where
  "digits_rest acc [] = Some acc"
| "digits_rest acc (c # cs) =
     (if is_digit c then digits_rest (acc @ [c]) cs
      else if c = CHR ''_'' then
        (case cs of
           [] \<Rightarrow> None
         | d # ds \<Rightarrow> if is_digit d then digits_rest (acc @ [d]) ds else None)
      else None)"

fun digit_part :: "string \<Rightarrow> string option" where
  "digit_part [] = None"
| "digit_part (c # cs) = (if is_digit c then digits_rest [c] cs else None)"

definition nat_of_digits :: "string \<Rightarrow> nat" where
  "nat_of_digits ds = foldl (\<lambda>n c. 10 * n + digit_val c) 0 ds"

definition parse_nat :: "string \<Rightarrow> nat option" where
  "parse_nat s = map_option nat_of_digits (digit_part s)"

text \<open>
  For ASCII text the two conversions skip the white space of C's \<^verbatim>\<open>isspace\<close> only, a
  smaller set than the one \<^verbatim>\<open>str.strip()\<close> removes.
\<close>

definition c_isspace :: "char \<Rightarrow> bool" where
  "c_isspace c = (c \<in> {CHR '' '', CHR 0x09, CHR 0x0A, CHR 0x0B, CHR 0x0C, CHR 0x0D})"

definition num_strip :: "string \<Rightarrow> string" where
  "num_strip s = rev (dropWhile c_isspace (rev (dropWhile c_isspace s)))"

definition py_int :: "string \<Rightarrow> int option" where
  "py_int text =
     (case num_strip text of
        [] \<Rightarrow> None
      | c # cs \<Rightarrow>
          if c = CHR ''-'' then map_option (\<lambda>n. - int n) (parse_nat cs)
          else if c = CHR ''+'' then map_option int (parse_nat cs)
          else map_option int (parse_nat (c # cs)))"

text \<open>
  \<^verbatim>\<open>float(text)\<close>: white space around, an optional sign, then \<^verbatim>\<open>inf\<close>, \<^verbatim>\<open>infinity\<close> or \<^verbatim>\<open>nan\<close>
  in any case, or a decimal number: digits, an optional point and digits (one of the two
  digit groups may be missing), an optional exponent. The value of a decimal number is
  its exact value.
\<close>

definition parse_exponent :: "string \<Rightarrow> int option" where
  "parse_exponent s =
     (case s of
        [] \<Rightarrow> None
      | c # cs \<Rightarrow>
          if c = CHR ''-'' then map_option (\<lambda>n. - int n) (parse_nat cs)
          else if c = CHR ''+'' then map_option int (parse_nat cs)
          else map_option int (parse_nat (c # cs)))"

definition parse_mantissa :: "string \<Rightarrow> real option" where
  "parse_mantissa s =
     (let ip = takeWhile (\<lambda>c. c \<noteq> CHR ''.'') s;
          rest = dropWhile (\<lambda>c. c \<noteq> CHR ''.'') s
      in case rest of
           [] \<Rightarrow> map_option (\<lambda>ds. real (nat_of_digits ds)) (digit_part ip)
         | dot # fp \<Rightarrow>
             if ip = [] \<and> fp = [] then None
             else
               (case (if ip = [] then Some [] else digit_part ip,
                      if fp = [] then Some [] else digit_part fp) of
                  (Some ids, Some fds) \<Rightarrow>
                    Some (real (nat_of_digits ids)
                          + real (nat_of_digits fds) / 10 ^ length fds)
                | _ \<Rightarrow> None))"

definition parse_decimal :: "string \<Rightarrow> real option" where
  "parse_decimal s =
     (let is_e = (\<lambda>c. c = CHR ''e'' \<or> c = CHR ''E'');
          m = takeWhile (\<lambda>c. \<not> is_e c) s;
          rest = dropWhile (\<lambda>c. \<not> is_e c) s
      in case rest of
           [] \<Rightarrow> parse_mantissa m
         | e # ex \<Rightarrow>
             (case (parse_mantissa m, parse_exponent ex) of
                (Some v, Some k) \<Rightarrow> Some (v * 10 powi k)
              | _ \<Rightarrow> None))"

definition py_float :: "string \<Rightarrow> pyfloat option" where
  "py_float text =
     (let t = num_strip text;
          neg = (t \<noteq> [] \<and> hd t = CHR ''-'');
          body = (if t \<noteq> [] \<and> (hd t = CHR ''-'' \<or> hd t = CHR ''+'') then tl t else t);
          low = py_lower body
      in if low = ''inf'' \<or> low = ''infinity'' then Some (Infinite neg)
         else if low = ''nan'' then Some NaN
         else map_option (\<lambda>v. Finite (if neg then - v else v)) (parse_decimal body))"





subsection \<open>Key aliases\<close>

definition PAIR_SEP :: char where "PAIR_SEP = CHR ''|''"
definition KV_SEP :: char where "KV_SEP = CHR '':''"
definition LIST_SEP :: char where "LIST_SEP = CHR ''~''"
definition NEST_OPEN :: char where "NEST_OPEN = CHR ''(''"
definition NEST_CLOSE :: char where "NEST_CLOSE = CHR '')''"

text \<open>
  \<^verbatim>\<open>_snake_to_short_pascal\<close>: the first four characters of every underscore-separated
  part, capitalized, concatenated.
\<close>

definition snake_to_short_pascal :: "string \<Rightarrow> string" where
  "snake_to_short_pascal key =
     concat (map (\<lambda>p. if length p \<le> 4 then py_capitalize p else py_capitalize (take 4 p))
               (py_split CHR ''_'' key))"

text \<open>
  \<^verbatim>\<open>_CAMEL_RE_1.sub(r"\1_\2", key)\<close> with the pattern \<^verbatim>\<open>(.)([A-Z][a-z]+)\<close>: scanning from
  the left, a character other than a newline followed by a capital and at least one
  small letter gets an underscore after it; the scan goes on after the small letters.
\<close>

function camel_sub_1 :: "string \<Rightarrow> string" where
  "camel_sub_1 [] = []"
| "camel_sub_1 [c] = [c]"
| "camel_sub_1 [c, u] = [c, u]"
| "camel_sub_1 (c # u # l # rest) =
     (if c \<noteq> CHR 0x0A \<and> is_upper u \<and> is_lower l
      then c # CHR ''_'' # u # l # takeWhile is_lower rest @ camel_sub_1 (dropWhile is_lower rest)
      else c # camel_sub_1 (u # l # rest))"
  by pat_completeness auto
termination
  by (relation "measure length") (auto intro: le_imp_less_Suc length_dropWhile_le less_SucI)

text \<open>
  \<^verbatim>\<open>_CAMEL_RE_2.sub(r"\1_\2", s)\<close> with the pattern \<^verbatim>\<open>([a-z0-9])([A-Z])\<close>; the scan goes on
  after the capital.
\<close>

fun camel_sub_2 :: "string \<Rightarrow> string" where
  "camel_sub_2 (a # b # rest) =
     (if (is_lower a \<or> is_digit a) \<and> is_upper b
      then a # CHR ''_'' # b # camel_sub_2 rest
      else a # camel_sub_2 (b # rest))"
| "camel_sub_2 s = s"

definition pascal_to_snake :: "string \<Rightarrow> string" where
  "pascal_to_snake key = py_lower (camel_sub_2 (camel_sub_1 key))"

subsection \<open>Encoding\<close>

text \<open>The test \<^verbatim>\<open>value is None or value == "" or value == [] or value == {}\<close>.\<close>

definition is_stripped :: "pyval \<Rightarrow> bool" where
  "is_stripped v = (v = PNone \<or> v = PStr [] \<or> v = PList [] \<or> v = PDict [])"




subsection \<open>Decoding\<close>

text \<open>\<^verbatim>\<open>_try_numeric\<close>: an int, else a float, else the text itself.\<close>

definition try_numeric :: "string \<Rightarrow> pyval" where
  "try_numeric v =
     (case py_int v of
        Some i \<Rightarrow> PInt i
      | None \<Rightarrow> (case py_float v of Some x \<Rightarrow> PFloat x | None \<Rightarrow> PStr v))"










subsection \<open>Integers survive printing and parsing\<close>

lemma digit_char_props:
  assumes "d < 10"
  shows "is_digit (digit_char d)" and "digit_val (digit_char d) = d"
    and "\<not> py_isspace (digit_char d)" and "\<not> c_isspace (digit_char d)"
proof -
  from assms have d: "d = 0 \<or> d = 1 \<or> d = 2 \<or> d = 3 \<or> d = 4 \<or> d = 5 \<or> d = 6 \<or> d = 7
      \<or> d = 8 \<or> d = 9"
    by arith
  show "is_digit (digit_char d)"
    using d by (auto simp: digit_char_def is_digit_def)
  show "digit_val (digit_char d) = d"
    using d by (auto simp: digit_char_def digit_val_def)
  show "\<not> py_isspace (digit_char d)"
    using d by (auto simp: digit_char_def py_isspace_def)
  show "\<not> c_isspace (digit_char d)"
    using d by (auto simp: digit_char_def c_isspace_def)
qed

lemma str_nat_digits: "list_all is_digit (str_nat n)"
proof (induction n rule: str_nat.induct)
  case (1 n)
  show ?case
  proof (cases "n < 10")
    case True
    then show ?thesis by (simp add: str_nat.simps [of n] digit_char_props)
  next
    case False
    with 1 show ?thesis by (simp add: str_nat.simps [of n] digit_char_props)
  qed
qed

lemma str_nat_nonempty: "str_nat n \<noteq> []"
  by (subst str_nat.simps) simp






text \<open>A text whose first and last characters are not white space is its own strip.\<close>

lemma strip_fixed:
  assumes "s \<noteq> []" "\<not> P (hd s)" "\<not> P (last s)"
  shows "rev (dropWhile P (rev (dropWhile P s))) = s"
proof -
  from assms(1,2) have "dropWhile P s = s" by (cases s) simp_all
  moreover from assms(1,3) have "dropWhile P (rev s) = rev s"
    by (cases "rev s") (simp_all add: hd_rev)
  ultimately show ?thesis by simp
qed

lemma str_nat_hd_last:
  "is_digit (hd (str_nat n))" "is_digit (last (str_nat n))"
proof -
  have "hd (str_nat n) \<in> set (str_nat n)" "last (str_nat n) \<in> set (str_nat n)"
    by (simp_all add: str_nat_nonempty)
  with str_nat_digits [of n] show "is_digit (hd (str_nat n))" "is_digit (last (str_nat n))"
    by (simp_all add: list_all_iff)
qed

lemma digit_not_space: "is_digit c \<Longrightarrow> \<not> py_isspace c \<and> \<not> c_isspace c"
  by (auto simp: is_digit_def py_isspace_def c_isspace_def)


lemma str_int_nonempty: "str_int i \<noteq> []"
  by (simp add: str_int_def str_nat_nonempty)

lemma str_int_hd_last:
  "\<not> py_isspace (hd (str_int i))" "\<not> py_isspace (last (str_int i))"
  "\<not> c_isspace (hd (str_int i))" "\<not> c_isspace (last (str_int i))"
proof -
  have sign: "\<not> py_isspace CHR ''-''" "\<not> c_isspace CHR ''-''"
    by (simp_all add: py_isspace_def c_isspace_def)
  have hd: "hd (str_int i) = (if i < 0 then CHR ''-'' else hd (str_nat (nat i)))"
    by (simp add: str_int_def)
  have last: "last (str_int i) = (if i < 0 then last (str_nat (nat (- i))) else last (str_nat (nat i)))"
    by (simp add: str_int_def str_nat_nonempty)
  show "\<not> py_isspace (hd (str_int i))" "\<not> c_isspace (hd (str_int i))"
    unfolding hd using sign str_nat_hd_last(1) [of "nat i"] digit_not_space by auto
  show "\<not> py_isspace (last (str_int i))" "\<not> c_isspace (last (str_int i))"
    unfolding last
    using str_nat_hd_last(2) [of "nat i"] str_nat_hd_last(2) [of "nat (- i)"] digit_not_space
    by auto
qed


lemma py_strip_str_int: "py_strip (str_int i) = str_int i"
  unfolding py_strip_def by (rule strip_fixed) (simp_all add: str_int_nonempty str_int_hd_last)




subsection \<open>How the splitter follows the brackets\<close>

text \<open>
  The bracket depth after a text, and whether scanning it from a given depth meets a pair
  separator at depth 0 (the only place where the splitter cuts).
\<close>

fun depth_after :: "int \<Rightarrow> string \<Rightarrow> int" where
  "depth_after d [] = d"
| "depth_after d (ch # s) =
     depth_after (if ch = NEST_OPEN then d + 1 else if ch = NEST_CLOSE then d - 1 else d) s"

fun no_split :: "int \<Rightarrow> string \<Rightarrow> bool" where
  "no_split d [] = True"
| "no_split d (ch # s) =
     (if ch = NEST_OPEN then no_split (d + 1) s
      else if ch = NEST_CLOSE then no_split (d - 1) s
      else if ch = PAIR_SEP \<and> d = 0 then False
      else no_split d s)"

text \<open>A text that leaves the depth as it found it and is never cut, from depth \<open>d\<close> on.\<close>

definition contained_from :: "int \<Rightarrow> string \<Rightarrow> bool" where
  "contained_from d s = (\<forall>k\<ge>d. no_split k s \<and> depth_after k s = k)"

lemma sep_chars_distinct [simp]:
  "NEST_OPEN \<noteq> NEST_CLOSE" "NEST_OPEN \<noteq> PAIR_SEP" "NEST_CLOSE \<noteq> PAIR_SEP"
  "NEST_CLOSE \<noteq> NEST_OPEN" "PAIR_SEP \<noteq> NEST_OPEN" "PAIR_SEP \<noteq> NEST_CLOSE"
  "KV_SEP \<noteq> NEST_OPEN" "KV_SEP \<noteq> NEST_CLOSE" "KV_SEP \<noteq> PAIR_SEP" "KV_SEP \<noteq> LIST_SEP"
  "LIST_SEP \<noteq> NEST_OPEN" "LIST_SEP \<noteq> NEST_CLOSE" "LIST_SEP \<noteq> PAIR_SEP" "LIST_SEP \<noteq> KV_SEP"
  "NEST_OPEN \<noteq> KV_SEP" "NEST_CLOSE \<noteq> KV_SEP" "PAIR_SEP \<noteq> KV_SEP"
  "NEST_OPEN \<noteq> LIST_SEP" "NEST_CLOSE \<noteq> LIST_SEP" "PAIR_SEP \<noteq> LIST_SEP"
  by (simp_all add: NEST_OPEN_def NEST_CLOSE_def PAIR_SEP_def KV_SEP_def LIST_SEP_def)







lemma contained_from_Nil [simp]: "contained_from d []"
  by (simp add: contained_from_def)

text \<open>Text without brackets and pair separators is contained at every depth.\<close>

definition bracket_free :: "string \<Rightarrow> bool" where
  "bracket_free s = list_all (\<lambda>c. c \<noteq> NEST_OPEN \<and> c \<noteq> NEST_CLOSE \<and> c \<noteq> PAIR_SEP) s"



lemma bracket_free_append [simp]:
  "bracket_free (a @ b) \<longleftrightarrow> bracket_free a \<and> bracket_free b"
  by (simp add: bracket_free_def)

lemma bracket_free_Cons [simp]:
  "bracket_free (c # s) \<longleftrightarrow> c \<noteq> NEST_OPEN \<and> c \<noteq> NEST_CLOSE \<and> c \<noteq> PAIR_SEP \<and> bracket_free s"
  by (simp add: bracket_free_def)

lemma bracket_free_Nil [simp]: "bracket_free []"
  by (simp add: bracket_free_def)



lemma py_join_Cons:
  "py_join sep (p # ps) = (if ps = [] then p else p @ sep @ py_join sep ps)"
  by (cases ps) simp_all







subsection \<open>Records that survive the round trip\<close>

text \<open>The pairs \<^verbatim>\<open>encode_dict\<close> keeps, and the key a kept pair comes back under.\<close>

definition kept :: "(string \<times> pyval) list \<Rightarrow> (string \<times> pyval) list" where
  "kept d = filter (\<lambda>kv. \<not> is_stripped (snd kv)) d"

definition decoded_key :: "string \<Rightarrow> string" where
  "decoded_key key = pascal_to_snake (py_strip (snake_to_short_pascal key))"

text \<open>
  An alias is plain when it has none of the characters that steer the decoder. A text
  value is plain when it is not empty, has no pair separator, list separator or bracket,
  neither starts nor ends with white space, and does not read as a number.
\<close>

definition plain_alias :: "string \<Rightarrow> bool" where
  "plain_alias a =
     list_all (\<lambda>c. c \<noteq> PAIR_SEP \<and> c \<noteq> KV_SEP \<and> c \<noteq> NEST_OPEN \<and> c \<noteq> NEST_CLOSE) a"

definition plain_text :: "string \<Rightarrow> bool" where
  "plain_text s =
     (s \<noteq> []
      \<and> list_all (\<lambda>c. c \<noteq> PAIR_SEP \<and> c \<noteq> LIST_SEP \<and> c \<noteq> NEST_OPEN \<and> c \<noteq> NEST_CLOSE) s
      \<and> \<not> py_isspace (hd s) \<and> \<not> py_isspace (last s)
      \<and> try_numeric s = PStr s)"

fun roundtrip_scalar :: "pyval \<Rightarrow> bool" where
  "roundtrip_scalar (PBool b) = True"
| "roundtrip_scalar (PInt i) = True"
| "roundtrip_scalar (PStr s) = plain_text s"
| "roundtrip_scalar PNone = False"
| "roundtrip_scalar (PFloat x) = False"
| "roundtrip_scalar (PList vs) = False"
| "roundtrip_scalar (PDict d) = False"

text \<open>
  The values covered: a bool, an int, a plain text, a list of at least two such scalars,
  or a nested record of covered values, to any depth, whose kept keys have plain aliases
  and come back under different names. Pairs that the encoder strips are not restricted.
\<close>

fun roundtrip_value :: "pyval \<Rightarrow> bool"
  and roundtrip_entries :: "(string \<times> pyval) list \<Rightarrow> bool" where
  "roundtrip_value (PBool b) = True"
| "roundtrip_value (PInt i) = True"
| "roundtrip_value (PStr s) = plain_text s"
| "roundtrip_value PNone = False"
| "roundtrip_value (PFloat x) = False"
| "roundtrip_value (PList vs) = (2 \<le> length vs \<and> list_all roundtrip_scalar vs)"
| "roundtrip_value (PDict d) =
     (roundtrip_entries d \<and> distinct (map (\<lambda>kv. decoded_key (fst kv)) (kept d)))"
| "roundtrip_entries [] = True"
| "roundtrip_entries (kv # rest) =
     ((is_stripped (snd kv)
       \<or> (plain_alias (snake_to_short_pascal (fst kv)) \<and> roundtrip_value (snd kv)))
      \<and> roundtrip_entries rest)"















lemma set_py_join:
  "set (py_join [sep] ps) \<subseteq> insert sep (\<Union> (set ` set ps))"
  by (induction ps) (auto simp: py_join_Cons split: if_splits)







lemma roundtrip_scalar_returned: "roundtrip_scalar e \<Longrightarrow> roundtrip_value e"
  by (cases e) simp_all









subsection \<open>The round trip\<close>







subsection \<open>Unbalanced brackets\<close>














subsection \<open>Booleans\<close>











end
